theory Spec2Isabelle
  imports Complex_Main "HOL-Library.AList"
begin

section \<open>Data model (backend/models/SocialMediaPost.js)\<close>

text \<open>
  The lifecycle status of a post. The scheduler service writes six different values into
  the \<open>status\<close> field; the schema's \<open>enum\<close> lists five of them.
\<close>

datatype post_status = Draft | Scheduled | Publishing | Published | Failed | Cancelled

text \<open>\<open>status: { type: String, enum: ['draft', 'scheduled', 'published', 'failed', 'cancelled'] }\<close>\<close>

definition status_enum :: "post_status list" where
  "status_enum = [Draft, Scheduled, Published, Failed, Cancelled]"

text \<open>\<open>postResults.status: enum ['success', 'failed', 'pending'], default 'pending'\<close>\<close>

datatype result_status = Success | ResultFailed | Pending

text \<open>
  An engagement object is a JavaScript object from counter names to numbers; the adapters
  return different sets of keys. It is an association list; \<open>{}\<close> is \<open>[]\<close>.
\<close>

type_synonym engagement = "(string \<times> nat) list"

record media_item =
  media_type :: string
  media_url :: string

text \<open>An option field is \<open>None\<close> where the JavaScript property is \<open>undefined\<close>.\<close>

record post_result =
  platform :: string
  postId :: "string option"
  url :: "string option"
  publishedAt :: "int option"
  engagement :: "engagement option"
  error :: "string option"
  rstatus :: result_status

text \<open>
  Counters are natural numbers. The two rates are JavaScript doubles in the source; they
  are rationals here, which agrees with the source wherever the quotient is exactly
  representable.
\<close>

record analytics =
  totalReach :: nat
  totalEngagement :: nat
  engagementRate :: rat
  clickThroughRate :: rat

text \<open>Dates are milliseconds since the epoch; ids are natural numbers.\<close>

record post =
  post_id :: nat
  title :: string
  content :: string
  platforms :: "string list"
  media :: "media_item list"
  hashtags :: "string list"
  mentions :: "string list"
  links :: "string list"
  scheduledDate :: "int option"
  publishedDate :: "int option"
  status :: post_status
  postResults :: "post_result list"
  createdBy :: nat
  analytics :: analytics

section \<open>Platform adapters (backend/services/socialMediaService.js)\<close>

record post_data =
  pd_content :: string
  pd_media :: "media_item list"
  pd_hashtags :: "string list"
  pd_mentions :: "string list"
  pd_link :: "string option"

text \<open>What a rejected service call carries: an \<open>Error\<close> with a message and, possibly, a code.\<close>

record js_error =
  err_message :: string
  err_code :: "string option"

text \<open>What a resolved service call carries.\<close>

record service_result =
  sr_postId :: "string option"
  sr_url :: "string option"
  sr_engagement :: "engagement option"
  sr_metadata :: "(string \<times> string) list option"

text \<open>
  The outside world. \<open>remote name payload\<close> is the outcome of the named service's body,
  which depends on credentials, installed packages and the network: \<open>Inl\<close> when its
  promise rejects, \<open>Inr\<close> when it resolves. \<open>typeErrorMessage\<close> is the text the
  JavaScript engine puts into the \<open>TypeError\<close> raised by calling the named member of
  \<open>Object.prototype\<close> without a receiver.
\<close>

record environment =
  remote :: "string \<Rightarrow> post_data \<Rightarrow> js_error + service_result"
  typeErrorMessage :: "string \<Rightarrow> string"

text \<open>
  \<open>youtubeService\<close>: the guard on the media list comes before any network call and is
  decided by the payload alone.
\<close>

definition youtubeService :: "environment \<Rightarrow> post_data \<Rightarrow> js_error + service_result" where
  "youtubeService env pd =
     (case pd_media pd of
        [] \<Rightarrow> Inl \<lparr>err_message = ''YouTube posts require video media'', err_code = None\<rparr>
      | m # _ \<Rightarrow>
          if media_type m \<noteq> ''video''
          then Inl \<lparr>err_message = ''YouTube posts require video media'', err_code = None\<rparr>
          else remote env ''youtube'' pd)"

text \<open>The keys of \<open>this.platforms\<close>, set in the constructor.\<close>

definition registered_platforms :: "string list" where
  "registered_platforms =
     [''facebook'', ''twitter'', ''instagram'', ''linkedin'', ''tiktok'', ''youtube'']"

definition services :: "environment \<Rightarrow> string \<Rightarrow> post_data \<Rightarrow> js_error + service_result" where
  "services env name pd =
     (if name = ''youtube'' then youtubeService env pd else remote env name pd)"

text \<open>
  \<open>this.platforms[platform]\<close> is a property read on an object literal, so it also finds
  the members the object inherits from \<open>Object.prototype\<close>. Called as
  \<open>service(postData, credentials)\<close>, that is without a receiver,
  \<open>Object\<close> (found under \<open>constructor\<close>) returns its argument and
  \<open>Object.prototype.toString\<close> returns a string; the other inherited members raise a
  \<open>TypeError\<close> (\<open>__proto__\<close> is not callable, the rest convert the missing receiver
  to an object first).
\<close>

datatype table_entry =
  Service string | ObjectConstructor | ObjectToString | OtherInherited | Missing

definition object_prototype_throwing :: "string list" where
  "object_prototype_throwing =
     [''__defineGetter__'', ''__defineSetter__'', ''hasOwnProperty'', ''__lookupGetter__'',
      ''__lookupSetter__'', ''isPrototypeOf'', ''propertyIsEnumerable'', ''valueOf'',
      ''__proto__'', ''toLocaleString'']"

definition platforms_table :: "string \<Rightarrow> table_entry" where
  "platforms_table name =
     (if name \<in> set registered_platforms then Service name
      else if name = ''constructor'' then ObjectConstructor
      else if name = ''toString'' then ObjectToString
      else if name \<in> set object_prototype_throwing then OtherInherited
      else Missing)"

text \<open>The object \<open>postToPlatform\<close> returns; a key that is not set is \<open>None\<close>.\<close>

record publish_result =
  success :: bool
  pr_platform :: string
  pr_postId :: "string option"
  pr_url :: "string option"
  pr_engagement :: "engagement option"
  pr_metadata :: "(string \<times> string) list option"
  pr_error :: "string option"
  pr_code :: "string option"

definition publish_ok :: "string \<Rightarrow> service_result \<Rightarrow> publish_result" where
  "publish_ok name r =
     \<lparr>success = True, pr_platform = name,
      pr_postId = sr_postId r, pr_url = sr_url r,
      pr_engagement = Some (case sr_engagement r of None \<Rightarrow> [] | Some e \<Rightarrow> e),
      pr_metadata = Some (case sr_metadata r of None \<Rightarrow> [] | Some m \<Rightarrow> m),
      pr_error = None, pr_code = None\<rparr>"

text \<open>\<open>code: error.code || 'UNKNOWN_ERROR'\<close>: a missing or empty code is replaced.\<close>

definition publish_failed :: "string \<Rightarrow> js_error \<Rightarrow> publish_result" where
  "publish_failed name e =
     \<lparr>success = False, pr_platform = name,
      pr_postId = None, pr_url = None, pr_engagement = None, pr_metadata = None,
      pr_error = Some (err_message e),
      pr_code = Some (case err_code e of
                       None \<Rightarrow> ''UNKNOWN_ERROR''
                     | Some c \<Rightarrow> if c = [] then ''UNKNOWN_ERROR'' else c)\<rparr>"

text \<open>The value a call of \<open>Object\<close> or of \<open>toString\<close> yields has none of the four keys read.\<close>

definition no_fields :: service_result where
  "no_fields = \<lparr>sr_postId = None, sr_url = None, sr_engagement = None, sr_metadata = None\<rparr>"

text \<open>
  \<open>postToPlatform\<close>: everything raised inside the \<open>try\<close> block is caught and turned
  into a result with \<open>success: false\<close>.
\<close>

definition postToPlatform :: "environment \<Rightarrow> string \<Rightarrow> post_data \<Rightarrow> publish_result" where
  "postToPlatform env name pd =
     (case platforms_table name of
        Missing \<Rightarrow>
          publish_failed name
            \<lparr>err_message = ''Platform '' @ name @ '' is not supported'', err_code = None\<rparr>
      | Service n \<Rightarrow>
          (case services env n pd of
             Inr r \<Rightarrow> publish_ok name r
           | Inl e \<Rightarrow> publish_failed name e)
      | ObjectConstructor \<Rightarrow> publish_ok name no_fields
      | ObjectToString \<Rightarrow> publish_ok name no_fields
      | OtherInherited \<Rightarrow>
          publish_failed name \<lparr>err_message = typeErrorMessage env name, err_code = None\<rparr>)"

section \<open>The scheduler service (backend/services/schedulerService.js)\<close>

text \<open>
  The state: the stored posts (the collection behind the \<open>SocialMediaPost\<close> model), the
  \<open>scheduledJobs\<close> map, in insertion order, the \<open>isInitialized\<close> flag, and whether
  the cron task is registered. The map is an association list whose keys are distinct, so
  its length is the \<open>size\<close> of the map. The store is taken to be available: its
  operations do not reject, and so the \<open>catch\<close> of line 121, which marks a post as
  \<open>failed\<close> when its processing throws, is not entered. One clock reading \<open>now\<close>
  stands for every \<open>new Date()\<close> of one call.
\<close>

record scheduler =
  db :: "post list"
  scheduledJobs :: "(nat \<times> post) list"
  isInitialized :: bool
  cronStarted :: bool

text \<open>\<open>findByIdAndUpdate(id, update)\<close> changes the first document with the id, if there is one.\<close>

fun findByIdAndUpdate :: "nat \<Rightarrow> (post \<Rightarrow> post) \<Rightarrow> post list \<Rightarrow> post list" where
  "findByIdAndUpdate i f [] = []"
| "findByIdAndUpdate i f (p # ps) =
     (if post_id p = i then f p # ps else p # findByIdAndUpdate i f ps)"

fun findById :: "nat \<Rightarrow> post list \<Rightarrow> post option" where
  "findById i [] = None"
| "findById i (p # ps) = (if post_id p = i then Some p else findById i ps)"

text \<open>Line 148: the status \<open>publishing\<close> is written first.\<close>

definition markPublishing :: "post \<Rightarrow> scheduler \<Rightarrow> scheduler" where
  "markPublishing p s =
     s\<lparr>db := findByIdAndUpdate (post_id p) (\<lambda>d. d\<lparr>status := Publishing\<rparr>) (db s)\<rparr>"

definition payload :: "post \<Rightarrow> post_data" where
  "payload p =
     \<lparr>pd_content = content p, pd_media = media p, pd_hashtags = hashtags p,
      pd_mentions = mentions p,
      pd_link = (case links p of [] \<Rightarrow> None | l # _ \<Rightarrow> Some l)\<rparr>"

text \<open>
  Lines 153 to 185, one round of the loop. \<open>postToPlatform\<close> returns a result for every
  input, so control always reaches the \<open>push\<close> of line 165, whose entry has the status
  \<open>success\<close>; the \<open>catch\<close> of line 175 is not entered.
\<close>

definition attempt :: "environment \<Rightarrow> int \<Rightarrow> post \<Rightarrow> string \<Rightarrow> post_result" where
  "attempt env now p name =
     (let result = postToPlatform env name (payload p)
      in \<lparr>platform = name, postId = pr_postId result, url = pr_url result,
          publishedAt = Some now, engagement = pr_engagement result,
          error = None, rstatus = Success\<rparr>)"

definition publishToPlatforms :: "environment \<Rightarrow> int \<Rightarrow> post \<Rightarrow> post_result list" where
  "publishToPlatforms env now p = map (attempt env now p) (platforms p)"

text \<open>Lines 188 to 192.\<close>

definition storeResults :: "int \<Rightarrow> post \<Rightarrow> post_result list \<Rightarrow> scheduler \<Rightarrow> scheduler" where
  "storeResults now p rs s =
     s\<lparr>db := findByIdAndUpdate (post_id p)
               (\<lambda>d. d\<lparr>status := Published, publishedDate := Some now, postResults := rs\<rparr>)
               (db s)\<rparr>"

text \<open>Line 195.\<close>

definition removeFromCache :: "nat \<Rightarrow> scheduler \<Rightarrow> scheduler" where
  "removeFromCache i s = s\<lparr>scheduledJobs := AList.delete i (scheduledJobs s)\<rparr>"

definition processScheduledPost :: "environment \<Rightarrow> int \<Rightarrow> post \<Rightarrow> scheduler \<Rightarrow> scheduler" where
  "processScheduledPost env now p s =
     removeFromCache (post_id p)
       (storeResults now p (publishToPlatforms env now p) (markPublishing p s))"

text \<open>
  The query of \<open>processScheduledPosts\<close>:
  \<open>find({status: 'scheduled', scheduledDate: {$lte: now}})\<close>. A document without a
  \<open>scheduledDate\<close> does not match.
\<close>

definition duePosts :: "int \<Rightarrow> post list \<Rightarrow> post list" where
  "duePosts now ps =
     filter (\<lambda>p. status p = Scheduled \<and>
                 (case scheduledDate p of None \<Rightarrow> False | Some d \<Rightarrow> d \<le> now)) ps"

text \<open>
  The loop of line 118. The second component lists the posts handed to
  \<open>processScheduledPost\<close>, in order.
\<close>

fun dispatchAll ::
  "environment \<Rightarrow> int \<Rightarrow> post list \<Rightarrow> scheduler \<times> post list \<Rightarrow> scheduler \<times> post list" where
  "dispatchAll env now [] acc = acc"
| "dispatchAll env now (p # ps) (s, sent) =
     dispatchAll env now ps (processScheduledPost env now p s, sent @ [p])"

definition processScheduledPosts :: "environment \<Rightarrow> int \<Rightarrow> scheduler \<Rightarrow> scheduler \<times> post list" where
  "processScheduledPosts env now s =
     (let due = duePosts now (db s)
      in if due = [] then (s, []) else dispatchAll env now due (s, []))"

text \<open>
  \<open>startScheduler\<close> registers the cron task that calls \<open>processScheduledPosts\<close> every
  minute. The field \<open>cronStarted\<close> of the state records the registration; a tick is one
  run of the task.
\<close>

definition startScheduler :: "scheduler \<Rightarrow> scheduler" where
  "startScheduler s = s\<lparr>cronStarted := True\<rparr>"

definition tick :: "environment \<Rightarrow> int \<Rightarrow> scheduler \<Rightarrow> scheduler \<times> post list" where
  "tick env now s = (if cronStarted s then processScheduledPosts env now s else (s, []))"

text \<open>
  \<open>loadScheduledPosts\<close>: the map is cleared and refilled from
  \<open>find({status: 'scheduled', scheduledDate: {$gte: now}})\<close>.
\<close>

definition loadScheduledPosts :: "int \<Rightarrow> scheduler \<Rightarrow> scheduler" where
  "loadScheduledPosts now s =
     s\<lparr>scheduledJobs :=
          foldl (\<lambda>m p. AList.update (post_id p) p m) []
            (filter (\<lambda>p. status p = Scheduled \<and>
                          (case scheduledDate p of None \<Rightarrow> False | Some d \<Rightarrow> now \<le> d))
               (db s))\<rparr>"

definition initialize :: "int \<Rightarrow> scheduler \<Rightarrow> scheduler" where
  "initialize now s =
     (if isInitialized s then s
      else (startScheduler (loadScheduledPosts now s))\<lparr>isInitialized := True\<rparr>)"

text \<open>\<open>pauseScheduler\<close> and \<open>resumeScheduler\<close> write a log line and nothing else.\<close>

definition pauseScheduler :: "scheduler \<Rightarrow> scheduler" where
  "pauseScheduler s = s"

definition resumeScheduler :: "scheduler \<Rightarrow> scheduler" where
  "resumeScheduler s = s"

subsection \<open>Saving a document\<close>

text \<open>\<open>result.engagement?.views || 0\<close> and its like.\<close>

definition counter :: "post_result \<Rightarrow> string \<Rightarrow> nat" where
  "counter r k =
     (case engagement r of
        None \<Rightarrow> 0
      | Some e \<Rightarrow> (case map_of e k of None \<Rightarrow> 0 | Some n \<Rightarrow> n))"

text \<open>The virtual \<open>totalEngagement\<close>.\<close>

definition totalEngagement_virtual :: "post \<Rightarrow> nat" where
  "totalEngagement_virtual p =
     foldl (\<lambda>total r. total + counter r ''likes'' + counter r ''comments'' + counter r ''shares'')
       0 (postResults p)"

text \<open>The \<open>pre('save')\<close> middleware. Both rates are assigned only when the reach is positive.\<close>

definition pre_save :: "post \<Rightarrow> post" where
  "pre_save p =
     (let reach = foldl (\<lambda>total r. total + counter r ''views'') 0 (postResults p);
          a1 = (analytics p)\<lparr>totalReach := reach\<rparr>;
          a2 = a1\<lparr>totalEngagement := totalEngagement_virtual p\<rparr>;
          a3 = (if totalReach a2 > 0
                then a2\<lparr>engagementRate :=
                          (of_nat (totalEngagement a2) / of_nat (totalReach a2)) * 100\<rparr>
                else a2);
          totalClicks = foldl (\<lambda>total r. total + counter r ''clicks'') 0 (postResults p);
          a4 = (if totalReach a3 > 0
                then a3\<lparr>clickThroughRate := (of_nat totalClicks / of_nat (totalReach a3)) * 100\<rparr>
                else a3)
      in p\<lparr>analytics := a4\<rparr>)"

text \<open>
  The validators of the schema, which run when a new document is created: required
  strings are non-empty, lengths are bounded and the enumerated strings are listed ones.
\<close>

definition schema_valid :: "post \<Rightarrow> bool" where
  "schema_valid p \<longleftrightarrow>
     title p \<noteq> [] \<and> length (title p) \<le> 200 \<and>
     content p \<noteq> [] \<and> length (content p) \<le> 5000 \<and>
     list_all (\<lambda>n. n \<in> set registered_platforms) (platforms p) \<and>
     list_all (\<lambda>m. media_type m \<in> set [''image'', ''video'', ''gif''] \<and> media_url m \<noteq> [])
       (media p) \<and>
     list_all (\<lambda>l. l \<noteq> []) (links p) \<and>
     status p \<in> set status_enum"

datatype create_error = ValidationError

text \<open>The id of a new document is one that no stored document has.\<close>

definition fresh_id :: "post list \<Rightarrow> nat" where
  "fresh_id ps = Suc (foldr max (map post_id ps) 0)"

definition create :: "post \<Rightarrow> post list \<Rightarrow> create_error + post \<times> post list" where
  "create doc ps =
     (if schema_valid doc
      then (let p = pre_save (doc\<lparr>post_id := fresh_id ps\<rparr>) in Inr (p, ps @ [p]))
      else Inl ValidationError)"

text \<open>
  \<open>updatePostResult(platform, resultData)\<close>. A field of \<open>result_update\<close> is \<open>None\<close>
  where \<open>resultData\<close> has no such key. \<open>Object.assign\<close> overwrites the keys that are
  there; a new entry takes the schema's default status \<open>pending\<close>. The document is then
  saved, which runs the \<open>pre('save')\<close> middleware.
\<close>

record result_update =
  ru_postId :: "string option"
  ru_url :: "string option"
  ru_publishedAt :: "int option"
  ru_engagement :: "engagement option"
  ru_error :: "string option"
  ru_status :: "result_status option"

definition assign :: "post_result \<Rightarrow> result_update \<Rightarrow> post_result" where
  "assign r u =
     r\<lparr>postId := (case ru_postId u of None \<Rightarrow> postId r | Some v \<Rightarrow> Some v),
       url := (case ru_url u of None \<Rightarrow> url r | Some v \<Rightarrow> Some v),
       publishedAt := (case ru_publishedAt u of None \<Rightarrow> publishedAt r | Some v \<Rightarrow> Some v),
       engagement := (case ru_engagement u of None \<Rightarrow> engagement r | Some v \<Rightarrow> Some v),
       error := (case ru_error u of None \<Rightarrow> error r | Some v \<Rightarrow> Some v),
       rstatus := (case ru_status u of None \<Rightarrow> rstatus r | Some v \<Rightarrow> v)\<rparr>"

fun assign_first :: "string \<Rightarrow> result_update \<Rightarrow> post_result list \<Rightarrow> post_result list option" where
  "assign_first name u [] = None"
| "assign_first name u (r # rs) =
     (if platform r = name then Some (assign r u # rs)
      else map_option (\<lambda>rs'. r # rs') (assign_first name u rs))"

definition updatePostResult :: "string \<Rightarrow> result_update \<Rightarrow> post \<Rightarrow> post" where
  "updatePostResult name u p =
     pre_save
       (p\<lparr>postResults :=
            (case assign_first name u (postResults p) of
               Some rs \<Rightarrow> rs
             | None \<Rightarrow>
                 postResults p @
                 [\<lparr>platform = name, postId = ru_postId u, url = ru_url u,
                   publishedAt = ru_publishedAt u, engagement = ru_engagement u,
                   error = ru_error u,
                   rstatus = (case ru_status u of None \<Rightarrow> Pending | Some v \<Rightarrow> v)\<rparr>])\<rparr>)"

subsection \<open>Scheduling a post (routes/scheduler.js, controllers/schedulerController.js)\<close>

text \<open>
  The \<open>scheduledDate\<close> of a request body: missing (or null, or the empty text), or a
  text. \<open>DateText wellformed parsed stored\<close> carries three readings of the text, made
  by three different pieces of code:
  \<^item> \<open>wellformed\<close>: whether the text passes the validator \<open>isISO8601\<close>;
  \<^item> \<open>parsed\<close>: what \<open>new Date(value)\<close> makes of it in the custom validator,
    \<open>None\<close> for an invalid date;
  \<^item> \<open>stored\<close>: what the schema's cast to \<open>Date\<close> makes of it when the document
    is created, \<open>None\<close> when the cast fails.

  The readings need not agree. A week date such as \<open>2024-W01\<close> is well-formed
  ISO 8601, but neither \<open>new Date\<close> nor the cast can read it. The cast reads a text
  of digits only as a number of milliseconds, so the basic-format date \<open>19991231\<close>,
  which is well-formed and which \<open>new Date\<close> does not read as a date, is stored as
  the instant 19991231 ms after the epoch.
\<close>

datatype date_input = DateMissing | DateText bool "int option" "int option"

fun is_iso8601 :: "date_input \<Rightarrow> bool" where
  "is_iso8601 DateMissing = False"
| "is_iso8601 (DateText wellformed parsed stored) = wellformed"

fun parsed_date :: "date_input \<Rightarrow> int option" where
  "parsed_date DateMissing = None"
| "parsed_date (DateText wellformed parsed stored) = parsed"

fun cast_date :: "date_input \<Rightarrow> int option" where
  "cast_date DateMissing = None"
| "cast_date (DateText wellformed parsed stored) = stored"

text \<open>
  The request body. A missing string is the empty string; the lists of hashtags and
  mentions are as the schema's setters leave them.
\<close>

record job_request =
  rq_title :: string
  rq_content :: string
  rq_platforms :: "string list"
  rq_scheduledDate :: date_input
  rq_media :: "media_item list"
  rq_hashtags :: "string list"
  rq_mentions :: "string list"
  rq_links :: "string list"

text \<open>
  \<open>scheduledJobValidation\<close>: the messages of the failed validators, in the order of the
  chains. The custom validator compares with \<open>\<le>\<close>; on an invalid date the comparison is
  false and it passes.
\<close>

definition scheduledJobValidation :: "int \<Rightarrow> job_request \<Rightarrow> string list" where
  "scheduledJobValidation now rq =
     (if rq_content rq = [] then [''Post content is required''] else []) @
     (if length (rq_content rq) > 5000 then [''Content cannot exceed 5000 characters''] else []) @
     (if rq_platforms rq = [] then [''At least one platform is required''] else []) @
     map (\<lambda>n. ''Invalid platform'')
       (filter (\<lambda>n. n \<notin> set registered_platforms) (rq_platforms rq)) @
     (if is_iso8601 (rq_scheduledDate rq) then [] else [''Valid scheduled date is required'']) @
     (case parsed_date (rq_scheduledDate rq) of
        None \<Rightarrow> []
      | Some d \<Rightarrow> if d \<le> now then [''Scheduled date must be in the future''] else [])"

text \<open>
  The document \<open>{...postData, status: 'scheduled'}\<close>, other fields at their defaults.
  Its \<open>scheduledDate\<close> is what the cast makes of the text.
\<close>

definition document_of :: "job_request \<Rightarrow> nat \<Rightarrow> post" where
  "document_of rq uid =
     \<lparr>post_id = 0, title = rq_title rq, content = rq_content rq,
      platforms = rq_platforms rq, media = rq_media rq, hashtags = rq_hashtags rq,
      mentions = rq_mentions rq, links = rq_links rq,
      scheduledDate = cast_date (rq_scheduledDate rq), publishedDate = None,
      status = Scheduled, postResults = [], createdBy = uid,
      analytics = \<lparr>totalReach = 0, totalEngagement = 0, engagementRate = 0,
                   clickThroughRate = 0\<rparr>\<rparr>"

text \<open>
  \<open>schedulePost\<close>. It makes no check of its own. A date text that the cast cannot
  read makes \<open>create\<close> reject with a validation error of the new document.
\<close>

definition schedulePost :: "job_request \<Rightarrow> nat \<Rightarrow> scheduler \<Rightarrow> create_error + post \<times> scheduler" where
  "schedulePost rq uid s =
     (if rq_scheduledDate rq \<noteq> DateMissing \<and> cast_date (rq_scheduledDate rq) = None
      then Inl ValidationError
      else case create (document_of rq uid) (db s) of
             Inl e \<Rightarrow> Inl e
           | Inr (p, ps) \<Rightarrow>
               Inr (p, s\<lparr>db := ps,
                         scheduledJobs := AList.update (post_id p) p (scheduledJobs s)\<rparr>))"

datatype response =
  Created201 post | Ok200 post | BadRequest400 "string list" | NotFound404
  | ServerError500 create_error

definition createScheduledJob ::
  "int \<Rightarrow> job_request \<Rightarrow> nat \<Rightarrow> scheduler \<Rightarrow> response \<times> scheduler" where
  "createScheduledJob now rq uid s =
     (let errors = scheduledJobValidation now rq
      in if errors \<noteq> [] then (BadRequest400 errors, s)
         else case schedulePost rq uid s of
                Inl e \<Rightarrow> (ServerError500 e, s)
              | Inr (p, s') \<Rightarrow> (Created201 p, s'))"

subsection \<open>Cancelling a post\<close>

text \<open>
  \<open>cancelScheduledPost\<close>: \<open>findByIdAndUpdate(postId, {status: 'cancelled'}, {new: true})\<close>
  with no condition on the current status, then the removal from the map.
\<close>

definition cancelScheduledPost :: "nat \<Rightarrow> scheduler \<Rightarrow> post option \<times> scheduler" where
  "cancelScheduledPost i s =
     (let ps = findByIdAndUpdate i (\<lambda>d. d\<lparr>status := Cancelled\<rparr>) (db s)
      in case findById i ps of
           None \<Rightarrow> (None, s)
         | Some p \<Rightarrow> (Some p, s\<lparr>db := ps, scheduledJobs := AList.delete i (scheduledJobs s)\<rparr>))"

definition cancelScheduledJob :: "nat \<Rightarrow> scheduler \<Rightarrow> response \<times> scheduler" where
  "cancelScheduledJob i s =
     (case cancelScheduledPost i s of
        (None, s') \<Rightarrow> (NotFound404, s')
      | (Some p, s') \<Rightarrow> (Ok200 p, s'))"

subsection \<open>Status and statistics\<close>

record scheduler_status =
  st_isInitialized :: bool
  st_scheduledJobsCount :: nat
  st_timestamp :: int

text \<open>\<open>getStatus\<close>; \<open>now\<close> is the clock reading of the call.\<close>

definition getStatus :: "int \<Rightarrow> scheduler \<Rightarrow> scheduler_status" where
  "getStatus now s =
     \<lparr>st_isInitialized = isInitialized s,
      st_scheduledJobsCount = length (scheduledJobs s),
      st_timestamp = now\<rparr>"

text \<open>The \<open>$group\<close> stage: one row for each status that occurs, with its count.\<close>

definition group_by_status :: "post list \<Rightarrow> (post_status \<times> nat) list" where
  "group_by_status ps =
     map (\<lambda>st. (st, length (filter (\<lambda>p. status p = st) ps))) (remdups (map status ps))"

text \<open>
  \<open>weekFromNow.setDate(weekFromNow.getDate() + 7)\<close>, for a server whose local time has no
  clock change within the week.
\<close>

definition weekFromNow :: "int \<Rightarrow> int" where
  "weekFromNow now = now + 7 * 86400000"

record scheduler_stats =
  by_status :: "post_status \<rightharpoonup> nat"
  total :: nat
  upcoming :: nat

definition getSchedulerStats :: "int \<Rightarrow> nat \<Rightarrow> scheduler \<Rightarrow> scheduler_stats" where
  "getSchedulerStats now uid s =
     (let stats = group_by_status (filter (\<lambda>p. createdBy p = uid) (db s));
          result0 = ([Scheduled \<mapsto> 0, Published \<mapsto> 0, Failed \<mapsto> 0, Cancelled \<mapsto> 0], 0);
          result = foldl (\<lambda>(m, t) (st, c). (m(st \<mapsto> c), t + c)) result0 stats
      in \<lparr>by_status = fst result, total = snd result,
          upcoming =
            length (filter (\<lambda>p. createdBy p = uid \<and> status p = Scheduled \<and>
                                 (case scheduledDate p of
                                    None \<Rightarrow> False
                                  | Some d \<Rightarrow> d \<le> weekFromNow now))
                      (db s))\<rparr>)"

section \<open>Example data\<close>

definition no_analytics :: analytics where
  "no_analytics =
     \<lparr>totalReach = 0, totalEngagement = 0, engagementRate = 0, clickThroughRate = 0\<rparr>"

text \<open>A scheduled post for YouTube with no media, due at 1000.\<close>

definition video_job :: post where
  "video_job =
     \<lparr>post_id = 1, title = ''Launch video'', content = ''New release'',
      platforms = [''youtube''], media = [], hashtags = [], mentions = [], links = [],
      scheduledDate = Some 1000, publishedDate = None, status = Scheduled,
      postResults = [], createdBy = 7, analytics = no_analytics\<rparr>"

text \<open>A scheduled post for Facebook and YouTube with no media, due at 1500.\<close>

definition mixed_job :: post where
  "mixed_job =
     \<lparr>post_id = 2, title = ''Launch note'', content = ''New release'',
      platforms = [''facebook'', ''youtube''], media = [], hashtags = [], mentions = [],
      links = [], scheduledDate = Some 1500, publishedDate = None, status = Scheduled,
      postResults = [], createdBy = 7, analytics = no_analytics\<rparr>"

text \<open>A scheduled post that is due at 604830000, a little more than a week after 0.\<close>

definition later_job :: post where
  "later_job =
     \<lparr>post_id = 3, title = ''Follow-up'', content = ''Still new'',
      platforms = [''facebook''], media = [], hashtags = [], mentions = [], links = [],
      scheduledDate = Some 604830000, publishedDate = None, status = Scheduled,
      postResults = [], createdBy = 7, analytics = no_analytics\<rparr>"

text \<open>A post that was published at 600.\<close>

definition done_job :: post where
  "done_job =
     \<lparr>post_id = 4, title = ''Old news'', content = ''Released'',
      platforms = [''facebook''], media = [], hashtags = [], mentions = [], links = [],
      scheduledDate = Some 500, publishedDate = Some 600, status = Published,
      postResults =
        [\<lparr>platform = ''facebook'', postId = Some ''fb_4'',
          url = Some ''https://facebook.com/fb_4'', publishedAt = Some 600,
          engagement = Some [(''likes'', 0), (''comments'', 0), (''shares'', 0)],
          error = None, rstatus = Success\<rparr>],
      createdBy = 7, analytics = no_analytics\<rparr>"

text \<open>An outside world in which Facebook accepts every post and nothing else is reachable.\<close>

definition example_env :: environment where
  "example_env =
     \<lparr>remote = (\<lambda>name pd.
        if name = ''facebook''
        then Inr \<lparr>sr_postId = Some ''fb_9'', sr_url = Some ''https://facebook.com/fb_9'',
                  sr_engagement = Some [(''likes'', 0), (''comments'', 0), (''shares'', 0)],
                  sr_metadata = None\<rparr>
        else Inl \<lparr>err_message = ''connect ETIMEDOUT'', err_code = Some ''ETIMEDOUT''\<rparr>),
      typeErrorMessage = (\<lambda>name. ''Cannot convert undefined or null to object'')\<rparr>"

definition example_state :: scheduler where
  "example_state =
     \<lparr>db = [video_job, mixed_job, later_job, done_job], scheduledJobs = [],
      isInitialized = False, cronStarted = False\<rparr>"

definition example_payload :: post_data where
  "example_payload =
     \<lparr>pd_content = ''New release'', pd_media = [], pd_hashtags = [], pd_mentions = [],
      pd_link = None\<rparr>"

text \<open>
  Request bodies, received at time 2000. In the first three the date is a text that all
  readings agree on.
\<close>

definition good_request :: job_request where
  "good_request =
     \<lparr>rq_title = ''Launch'', rq_content = ''New release'', rq_platforms = [''twitter''],
      rq_scheduledDate = DateText True (Some 9000) (Some 9000), rq_media = [], rq_hashtags = [],
      rq_mentions = [], rq_links = []\<rparr>"

definition past_request :: job_request where
  "past_request = good_request\<lparr>rq_scheduledDate := DateText True (Some 1000) (Some 1000)\<rparr>"

definition no_targets_request :: job_request where
  "no_targets_request = good_request\<lparr>rq_platforms := []\<rparr>"

text \<open>The date \<open>2024-W01\<close>: well-formed, read by neither \<open>new Date\<close> nor the cast.\<close>

definition week_request :: job_request where
  "week_request = good_request\<lparr>rq_scheduledDate := DateText True None None\<rparr>"

text \<open>
  The date \<open>19991231\<close>: well-formed, not read by \<open>new Date\<close>, cast to 19991231 ms
  after the epoch, which is in January 1970.
\<close>

definition digits_request :: job_request where
  "digits_request = good_request\<lparr>rq_scheduledDate := DateText True None (Some 19991231)\<rparr>"

text \<open>A post with one result that has been seen a hundred times and liked fifty times.\<close>

definition seen_post :: post where
  "seen_post =
     \<lparr>post_id = 5, title = ''Seen'', content = ''Released'',
      platforms = [''facebook''], media = [], hashtags = [], mentions = [], links = [],
      scheduledDate = None, publishedDate = Some 600, status = Published,
      postResults =
        [\<lparr>platform = ''facebook'', postId = Some ''fb_5'',
          url = Some ''https://facebook.com/fb_5'', publishedAt = Some 600,
          engagement = Some [(''likes'', 50), (''views'', 100)],
          error = None, rstatus = Success\<rparr>],
      createdBy = 7, analytics = no_analytics\<rparr>"

text \<open>The same post with the view counter at zero, and the update that sets it so.\<close>

definition unseen_post :: post where
  "unseen_post =
     seen_post\<lparr>postResults :=
       [\<lparr>platform = ''facebook'', postId = Some ''fb_5'',
         url = Some ''https://facebook.com/fb_5'', publishedAt = Some 600,
         engagement = Some [(''likes'', 50), (''views'', 0)],
         error = None, rstatus = Success\<rparr>]\<rparr>"

definition views_reset :: result_update where
  "views_reset =
     \<lparr>ru_postId = None, ru_url = None, ru_publishedAt = None,
      ru_engagement = Some [(''likes'', 50), (''views'', 0)],
      ru_error = None, ru_status = None\<rparr>"

text \<open>
  The seen post after a save, scheduled again for 1000, as the only document of a store.
\<close>

definition rescheduled_post :: post where
  "rescheduled_post = (pre_save seen_post)\<lparr>status := Scheduled, scheduledDate := Some 1000\<rparr>"

definition rescheduled_state :: scheduler where
  "rescheduled_state =
     \<lparr>db = [rescheduled_post], scheduledJobs = [], isInitialized = True, cronStarted = True\<rparr>"

section \<open>Properties\<close>

lemmas example_defs =
  example_state_def video_job_def mixed_job_def later_job_def done_job_def no_analytics_def

subsection \<open>The store\<close>

lemma findById_update:
  "findById i (findByIdAndUpdate i f ps) = map_option f (findById i ps)"
  if "\<And>d. post_id (f d) = post_id d"
  using that by (induction ps) auto

lemma findById_append:
  "findById i (ps @ qs) = (case findById i ps of None \<Rightarrow> findById i qs | Some p \<Rightarrow> Some p)"
  by (induction ps) auto

lemma fresh_id_greater: "p \<in> set ps \<Longrightarrow> post_id p < fresh_id ps"
  by (induction ps) (auto simp: fresh_id_def)

lemma findById_fresh: "findById (fresh_id ps) ps = None"
proof -
  have absent: "\<And>i. (\<forall>p \<in> set ps. post_id p \<noteq> i) \<Longrightarrow> findById i ps = None"
    by (induction ps) auto
  have "\<forall>p \<in> set ps. post_id p \<noteq> fresh_id ps"
  proof
    fix p assume "p \<in> set ps"
    then have "post_id p < fresh_id ps" by (rule fresh_id_greater)
    then show "post_id p \<noteq> fresh_id ps" by simp
  qed
  then show ?thesis by (rule absent)
qed

lemma pre_save_keeps:
  "post_id (pre_save p) = post_id p" "status (pre_save p) = status p"
  "scheduledDate (pre_save p) = scheduledDate p" "postResults (pre_save p) = postResults p"
  by (simp_all add: pre_save_def Let_def)

lemma create_valid:
  assumes "schema_valid doc"
  shows "\<exists>p. create doc ps = Inr (p, ps @ [p]) \<and> post_id p = fresh_id ps \<and>
             status p = status doc \<and> scheduledDate p = scheduledDate doc"
  using assms by (simp add: create_def Let_def pre_save_keeps)

subsection \<open>Publishing to one platform\<close>

text \<open>For a registered platform the result reports success exactly when the service resolves.\<close>

lemma registered_success_iff:
  "name \<in> set registered_platforms \<Longrightarrow>
   success (postToPlatform env name pd) \<longleftrightarrow> (\<exists>r. services env name pd = Inr r)"
  by (auto simp: postToPlatform_def platforms_table_def publish_ok_def publish_failed_def
           split: sum.splits)

text \<open>A name under which the table holds nothing, own or inherited, is reported as unsupported.\<close>

lemma unknown_name_rejected:
  "platforms_table name = Missing \<Longrightarrow>
   postToPlatform env name pd =
     \<lparr>success = False, pr_platform = name, pr_postId = None, pr_url = None,
      pr_engagement = None, pr_metadata = None,
      pr_error = Some (''Platform '' @ name @ '' is not supported''),
      pr_code = Some ''UNKNOWN_ERROR''\<rparr>"
  by (simp add: postToPlatform_def publish_failed_def)

lemma youtube_without_media:
  "pd_media pd = [] \<Longrightarrow>
   postToPlatform env ''youtube'' pd =
     \<lparr>success = False, pr_platform = ''youtube'', pr_postId = None, pr_url = None,
      pr_engagement = None, pr_metadata = None,
      pr_error = Some ''YouTube posts require video media'',
      pr_code = Some ''UNKNOWN_ERROR''\<rparr>"
  by (simp add: postToPlatform_def platforms_table_def registered_platforms_def services_def
        youtubeService_def publish_failed_def)

text \<open>
  Claim C10. \<open>postToPlatform\<close> is to return \<open>success: false\<close> for every platform name
  that is not one of the six registered ones. The names \<open>constructor\<close> and \<open>toString\<close>
  are not registered, yet the table lookup finds the members inherited from
  \<open>Object.prototype\<close>, the call returns a value, and the result says \<open>success: true\<close>,
  whatever the payload and the outside world.
\<close>

theorem inherited_key_reported_as_success:
  "''constructor'' \<notin> set registered_platforms \<and>
   ''toString'' \<notin> set registered_platforms \<and>
   success (postToPlatform env ''constructor'' pd) \<and>
   success (postToPlatform env ''toString'' pd)"
  by (simp add: postToPlatform_def platforms_table_def registered_platforms_def publish_ok_def)

subsection \<open>Processing one job\<close>

text \<open>Whatever \<open>postToPlatform\<close> returns, the entry pushed for the platform says \<open>success\<close>.\<close>

lemma attempt_recorded_as_success:
  "rstatus (attempt env now p name) = Success \<and> error (attempt env now p name) = None \<and>
   platform (attempt env now p name) = name"
  by (simp add: attempt_def Let_def)

text \<open>Every platform of the post gets its entry, in order.\<close>

lemma every_platform_attempted:
  "map platform (publishToPlatforms env now p) = platforms p"
  by (simp add: publishToPlatforms_def attempt_recorded_as_success comp_def)

text \<open>The first write leaves the stored document with the status \<open>publishing\<close>.\<close>

lemma markPublishing_stored:
  "findById (post_id p) (db (markPublishing p s)) =
   map_option (\<lambda>d. d\<lparr>status := Publishing\<rparr>) (findById (post_id p) (db s))"
  by (simp add: markPublishing_def findById_update)

text \<open>The last write sets \<open>published\<close>, the date and the results, and nothing else.\<close>

lemma processScheduledPost_stored:
  "findById (post_id p) (db (processScheduledPost env now p s)) =
   map_option
     (\<lambda>d. d\<lparr>status := Published, publishedDate := Some now,
            postResults := publishToPlatforms env now p\<rparr>)
     (findById (post_id p) (db s))"
  by (simp add: processScheduledPost_def removeFromCache_def storeResults_def
        markPublishing_def findById_update option.map_comp comp_def)

lemma dispatchAll_sent: "snd (dispatchAll env now ps (s, sent)) = sent @ ps"
  by (induction ps arbitrary: s sent) simp_all

lemma processScheduledPosts_sent: "snd (processScheduledPosts env now s) = duePosts now (db s)"
  by (simp add: processScheduledPosts_def Let_def dispatchAll_sent)

text \<open>
  Claim C1. When every platform outcome of a processed job is a failure, the final status
  is to be \<open>failed\<close>. The job \<open>video_job\<close> is due at 2000 and targets YouTube only, with
  no media: the adapter rejects it in every outside world, \<open>postToPlatform\<close> returns
  \<open>success: false\<close>, and the job is stored as \<open>published\<close> with one result whose status
  is \<open>success\<close>.
\<close>

theorem published_although_every_platform_failed:
  "video_job \<in> set (snd (processScheduledPosts env 2000 example_state)) \<and>
   platforms video_job = [''youtube''] \<and>
   \<not> success (postToPlatform env ''youtube'' (payload video_job)) \<and>
   findById 1 (db (processScheduledPost env 2000 video_job example_state)) =
     Some (video_job\<lparr>status := Published, publishedDate := Some 2000,
             postResults :=
               [\<lparr>platform = ''youtube'', postId = None, url = None,
                 publishedAt = Some 2000, engagement = None, error = None,
                 rstatus = Success\<rparr>]\<rparr>)"
proof -
  have due: "video_job \<in> set (snd (processScheduledPosts env 2000 example_state))"
    by (simp add: processScheduledPosts_sent duePosts_def example_defs)
  have media: "pd_media (payload video_job) = []"
    by (simp add: payload_def video_job_def)
  have out: "postToPlatform env ''youtube'' (payload video_job) =
     \<lparr>success = False, pr_platform = ''youtube'', pr_postId = None, pr_url = None,
      pr_engagement = None, pr_metadata = None,
      pr_error = Some ''YouTube posts require video media'',
      pr_code = Some ''UNKNOWN_ERROR''\<rparr>"
    by (rule youtube_without_media [OF media])
  have stored: "findById (post_id video_job) (db example_state) = Some video_job"
    by (simp add: example_defs)
  have i: "post_id video_job = 1" and pl: "platforms video_job = [''youtube'']"
    by (simp_all add: video_job_def)
  have rs: "publishToPlatforms env 2000 video_job =
      [\<lparr>platform = ''youtube'', postId = None, url = None,
        publishedAt = Some 2000, engagement = None, error = None, rstatus = Success\<rparr>]"
    by (simp add: publishToPlatforms_def pl attempt_def Let_def out)
  have "findById (post_id video_job) (db (processScheduledPost env 2000 video_job example_state)) =
     Some (video_job\<lparr>status := Published, publishedDate := Some 2000,
             postResults :=
               [\<lparr>platform = ''youtube'', postId = None, url = None,
                 publishedAt = Some 2000, engagement = None, error = None,
                 rstatus = Success\<rparr>]\<rparr>)"
    by (simp add: processScheduledPost_stored stored rs)
  then have fin: "findById 1 (db (processScheduledPost env 2000 video_job example_state)) =
     Some (video_job\<lparr>status := Published, publishedDate := Some 2000,
             postResults :=
               [\<lparr>platform = ''youtube'', postId = None, url = None,
                 publishedAt = Some 2000, engagement = None, error = None,
                 rstatus = Success\<rparr>]\<rparr>)"
    by (simp only: i)
  show ?thesis
    using due pl out fin by simp
qed

text \<open>
  Claim C2. When the publish for one platform of a job fails, the entry recorded for that
  platform is to have the status \<open>failed\<close> and carry the error message. The job
  \<open>mixed_job\<close> targets Facebook and YouTube, with no media: for YouTube
  \<open>postToPlatform\<close> returns \<open>success: false\<close> with the message of the adapter, and the
  entry stored for YouTube has the status \<open>success\<close> and no error. Both platforms do get
  an entry.
\<close>

theorem failed_platform_recorded_as_success:
  "platforms mixed_job = [''facebook'', ''youtube''] \<and>
   \<not> success (postToPlatform env ''youtube'' (payload mixed_job)) \<and>
   pr_error (postToPlatform env ''youtube'' (payload mixed_job)) =
     Some ''YouTube posts require video media'' \<and>
   map_option (\<lambda>d. map (\<lambda>r. (platform r, rstatus r, error r)) (postResults d))
     (findById 2 (db (processScheduledPost env now mixed_job example_state))) =
     Some [(''facebook'', Success, None), (''youtube'', Success, None)]"
proof -
  have media: "pd_media (payload mixed_job) = []"
    by (simp add: payload_def mixed_job_def)
  have i: "post_id mixed_job = 2" and pl: "platforms mixed_job = [''facebook'', ''youtube'']"
    by (simp_all add: mixed_job_def)
  have stored: "findById (post_id mixed_job) (db example_state) = Some mixed_job"
    by (simp add: example_defs)
  have "map_option (\<lambda>d. map (\<lambda>r. (platform r, rstatus r, error r)) (postResults d))
     (findById (post_id mixed_job) (db (processScheduledPost env now mixed_job example_state))) =
     Some [(''facebook'', Success, None), (''youtube'', Success, None)]"
    by (simp add: processScheduledPost_stored stored publishToPlatforms_def pl
          attempt_recorded_as_success)
  then have fin: "map_option (\<lambda>d. map (\<lambda>r. (platform r, rstatus r, error r)) (postResults d))
     (findById 2 (db (processScheduledPost env now mixed_job example_state))) =
     Some [(''facebook'', Success, None), (''youtube'', Success, None)]"
    by (simp only: i)
  show ?thesis
    using pl fin by (simp add: youtube_without_media [OF media])
qed

text \<open>
  Claim C6. The status \<open>publishing\<close> is to be stored before the first publish attempt,
  and it is to be a legal value of the status field. The write comes first indeed
  (\<open>markPublishing\<close> is the innermost step of \<open>processScheduledPost\<close>), but the value it
  stores is not among those the schema's \<open>enum\<close> lists: the validators of the schema
  accept \<open>video_job\<close> and refuse it once its status is \<open>publishing\<close>.
\<close>

theorem publishing_not_in_status_enum:
  "findById 1 (db (markPublishing video_job example_state)) =
     Some (video_job\<lparr>status := Publishing\<rparr>) \<and>
   Publishing \<notin> set status_enum \<and>
   schema_valid video_job \<and> \<not> schema_valid (video_job\<lparr>status := Publishing\<rparr>)"
  by (simp add: markPublishing_def status_enum_def schema_valid_def registered_platforms_def
        example_defs)

subsection \<open>The tick\<close>

text \<open>
  Claim C7. At a tick at time \<open>now\<close>, every post handed to the job processor is a stored
  post with the status \<open>scheduled\<close> and a \<open>scheduledDate\<close> that is at most \<open>now\<close>; so
  no post whose \<open>scheduledDate\<close> is later than \<open>now\<close> is handed over.
\<close>

theorem tick_dispatches_only_due:
  "\<forall>p \<in> set (snd (processScheduledPosts env now s)).
     p \<in> set (db s) \<and> status p = Scheduled \<and>
     (\<exists>d. scheduledDate p = Some d \<and> d \<le> now)"
  by (auto simp: processScheduledPosts_sent duePosts_def split: option.splits)

theorem tick_dispatches_only_due_witness:
  "video_job \<in> set (snd (processScheduledPosts example_env 2000 example_state)) \<and>
   video_job \<in> set (db example_state) \<and> status video_job = Scheduled \<and>
   (\<exists>d. scheduledDate video_job = Some d \<and> d \<le> 2000) \<and>
   later_job \<notin> set (snd (processScheduledPosts example_env 2000 example_state))"
proof -
  have sent: "snd (processScheduledPosts example_env 2000 example_state) = [video_job, mixed_job]"
    by (simp add: processScheduledPosts_sent duePosts_def example_defs)
  have mem: "video_job \<in> set (snd (processScheduledPosts example_env 2000 example_state))"
    by (simp add: sent)
  have out: "later_job \<notin> set (snd (processScheduledPosts example_env 2000 example_state))"
    unfolding sent by (simp add: video_job_def mixed_job_def later_job_def)
  from tick_dispatches_only_due [rule_format, OF mem] mem out show ?thesis
    by blast
qed

lemma pause_changes_nothing: "tick env now (pauseScheduler s) = tick env now s"
  by (simp add: pauseScheduler_def)

text \<open>
  Claim C5. After \<open>pauseScheduler\<close> no tick is to dispatch due jobs until
  \<open>resumeScheduler\<close>. The service is initialised at 0 and paused; the tick at 2000
  dispatches the two due jobs all the same.
\<close>

theorem pause_does_not_stop_dispatch:
  "cronStarted (pauseScheduler (initialize 0 example_state)) \<and>
   snd (tick env 2000 (pauseScheduler (initialize 0 example_state))) = [video_job, mixed_job]"
  by (simp add: tick_def pauseScheduler_def initialize_def startScheduler_def
        loadScheduledPosts_def processScheduledPosts_sent duePosts_def example_defs)

subsection \<open>Cancelling\<close>

text \<open>A stored post is cancelled, whatever its status, and leaves the map.\<close>

lemma cancel_stored:
  assumes "findById i (db s) = Some p"
  shows "fst (cancelScheduledPost i s) = Some (p\<lparr>status := Cancelled\<rparr>) \<and>
         findById i (db (snd (cancelScheduledPost i s))) = Some (p\<lparr>status := Cancelled\<rparr>) \<and>
         i \<notin> fst ` set (scheduledJobs (snd (cancelScheduledPost i s)))"
  using assms
  by (simp add: cancelScheduledPost_def Let_def findById_update AList.delete_notin_dom)

lemma cancel_unknown:
  "findById i (db s) = None \<Longrightarrow> cancelScheduledJob i s = (NotFound404, s)"
  by (simp add: cancelScheduledJob_def cancelScheduledPost_def Let_def findById_update)

text \<open>
  Claim C3. Cancelling a post whose status is \<open>publishing\<close> or a later one is to return
  an error and leave the record as it is. The post \<open>done_job\<close> is \<open>published\<close>: the
  cancel request answers 200 and the stored status becomes \<open>cancelled\<close>. The same
  happens to \<open>video_job\<close> once its status is \<open>publishing\<close>.
\<close>

theorem cancel_overwrites_later_status:
  "status done_job = Published \<and>
   cancelScheduledJob 4 example_state =
     (Ok200 (done_job\<lparr>status := Cancelled\<rparr>),
      example_state\<lparr>db := [video_job, mixed_job, later_job, done_job\<lparr>status := Cancelled\<rparr>]\<rparr>) \<and>
   findById 1 (db (markPublishing video_job example_state)) =
     Some (video_job\<lparr>status := Publishing\<rparr>) \<and>
   fst (cancelScheduledJob 1 (markPublishing video_job example_state)) =
     Ok200 (video_job\<lparr>status := Cancelled\<rparr>)"
  by (simp add: cancelScheduledJob_def cancelScheduledPost_def markPublishing_def Let_def
        example_defs)

subsection \<open>Scheduling\<close>

text \<open>
  What the endpoint that schedules a post (\<open>scheduledJobValidation\<close>, then
  \<open>schedulePost\<close>) does get right. A request whose date \<open>new Date\<close> reads as an
  instant not later than \<open>now\<close> is refused with the message that the date must be in
  the future; a request with no platforms is refused with the message that one is
  required; in both cases nothing is stored. A request that passes the validation and
  the schema, and whose date the cast reads as \<open>d\<close>, returns a post with the status
  \<open>scheduled\<close> and the date \<open>d\<close>, which is then both stored and in the
  \<open>scheduledJobs\<close> map under its id.
\<close>

lemma createScheduledJob_checks:
  "(parsed_date (rq_scheduledDate rq) = Some d \<and> d \<le> now \<longrightarrow>
      (\<exists>errors. createScheduledJob now rq uid s = (BadRequest400 errors, s) \<and>
                ''Scheduled date must be in the future'' \<in> set errors)) \<and>
   (rq_platforms rq = [] \<longrightarrow>
      (\<exists>errors. createScheduledJob now rq uid s = (BadRequest400 errors, s) \<and>
                ''At least one platform is required'' \<in> set errors)) \<and>
   (scheduledJobValidation now rq = [] \<and> cast_date (rq_scheduledDate rq) = Some d \<and>
    schema_valid (document_of rq uid) \<longrightarrow>
      (\<exists>p s'. createScheduledJob now rq uid s = (Created201 p, s') \<and>
              status p = Scheduled \<and> scheduledDate p = Some d \<and>
              map_of (scheduledJobs s') (post_id p) = Some p \<and>
              findById (post_id p) (db s') = Some p))"
proof (intro conjI impI)
  assume "parsed_date (rq_scheduledDate rq) = Some d \<and> d \<le> now"
  then have "''Scheduled date must be in the future'' \<in> set (scheduledJobValidation now rq)"
    by (simp add: scheduledJobValidation_def)
  then show "\<exists>errors. createScheduledJob now rq uid s = (BadRequest400 errors, s) \<and>
                ''Scheduled date must be in the future'' \<in> set errors"
    by (auto simp: createScheduledJob_def Let_def)
next
  assume "rq_platforms rq = []"
  then have "''At least one platform is required'' \<in> set (scheduledJobValidation now rq)"
    by (simp add: scheduledJobValidation_def)
  then show "\<exists>errors. createScheduledJob now rq uid s = (BadRequest400 errors, s) \<and>
                ''At least one platform is required'' \<in> set errors"
    by (auto simp: createScheduledJob_def Let_def)
next
  assume a: "scheduledJobValidation now rq = [] \<and> cast_date (rq_scheduledDate rq) = Some d \<and>
    schema_valid (document_of rq uid)"
  then obtain p where p: "create (document_of rq uid) (db s) = Inr (p, db s @ [p])"
      "post_id p = fresh_id (db s)" "status p = status (document_of rq uid)"
      "scheduledDate p = scheduledDate (document_of rq uid)"
    using create_valid [of "document_of rq uid" "db s"] by blast
  let ?s' = "s\<lparr>db := db s @ [p], scheduledJobs := AList.update (post_id p) p (scheduledJobs s)\<rparr>"
  have "schedulePost rq uid s = Inr (p, ?s')"
    using a p(1) by (simp add: schedulePost_def)
  then have "createScheduledJob now rq uid s = (Created201 p, ?s')"
    using a by (simp add: createScheduledJob_def Let_def)
  moreover have "status p = Scheduled" "scheduledDate p = Some d"
    using a p(3,4) by (simp_all add: document_of_def)
  moreover have "map_of (scheduledJobs ?s') (post_id p) = Some p"
    by (simp add: AList.update_conv')
  moreover have "findById (post_id p) (db ?s') = Some p"
    by (simp add: findById_append p(2) findById_fresh)
  ultimately show "\<exists>p s'. createScheduledJob now rq uid s = (Created201 p, s') \<and>
              status p = Scheduled \<and> scheduledDate p = Some d \<and>
              map_of (scheduledJobs s') (post_id p) = Some p \<and>
              findById (post_id p) (db s') = Some p"
    by blast
qed

text \<open>A date that passes the validation and that \<open>new Date\<close> reads is later than \<open>now\<close>.\<close>

lemma validated_parsed_date_is_future:
  "scheduledJobValidation now rq = [] \<Longrightarrow> parsed_date (rq_scheduledDate rq) = Some d \<Longrightarrow>
   now < d"
  by (auto simp: scheduledJobValidation_def split: if_splits)

text \<open>The three cases at the example requests.\<close>

lemma createScheduledJob_examples:
  "(\<exists>errors. createScheduledJob 2000 past_request 7 example_state =
       (BadRequest400 errors, example_state) \<and>
     ''Scheduled date must be in the future'' \<in> set errors) \<and>
   (\<exists>errors. createScheduledJob 2000 no_targets_request 7 example_state =
       (BadRequest400 errors, example_state) \<and>
     ''At least one platform is required'' \<in> set errors) \<and>
   (\<exists>p s'. createScheduledJob 2000 good_request 7 example_state = (Created201 p, s') \<and>
           status p = Scheduled \<and> scheduledDate p = Some 9000 \<and>
           map_of (scheduledJobs s') (post_id p) = Some p \<and>
           findById (post_id p) (db s') = Some p)"
proof -
  have h1: "parsed_date (rq_scheduledDate past_request) = Some 1000 \<and> (1000::int) \<le> 2000"
    by (simp add: past_request_def good_request_def)
  have h2: "rq_platforms no_targets_request = []"
    by (simp add: no_targets_request_def good_request_def)
  have h3: "scheduledJobValidation 2000 good_request = [] \<and>
      cast_date (rq_scheduledDate good_request) = Some 9000 \<and>
      schema_valid (document_of good_request 7)"
    by (simp add: scheduledJobValidation_def good_request_def schema_valid_def document_of_def
          registered_platforms_def status_enum_def)
  from createScheduledJob_checks [of past_request 1000 2000 7 example_state] h1
       createScheduledJob_checks [of no_targets_request 0 2000 7 example_state] h2
       createScheduledJob_checks [of good_request 9000 2000 7 example_state] h3
  show ?thesis by blast
qed

text \<open>
  Claim C4. A request whose \<open>scheduledDate\<close> is not strictly in the future is to fail
  with the error that says so, and a returned post is to have a date in the future. The
  custom validator compares \<open>new Date(value)\<close> with the clock, and on a text that
  \<open>new Date\<close> cannot read the comparison is false: the text passes. The request
  \<open>week_request\<close> carries the well-formed date \<open>2024-W01\<close>: it passes the validation
  at every time, also after that week, and ends as a server error raised by the cast,
  with no message about the date. The request \<open>digits_request\<close> carries the well-formed
  date \<open>19991231\<close>: it passes the validation, and at the time 1750000000000 (in 2025)
  the answer is 201 with a post whose status is \<open>scheduled\<close> and whose date is in 1970;
  the post is stored and in the \<open>scheduledJobs\<close> map.
\<close>

theorem unread_date_passes_validation:
  "scheduledJobValidation now week_request = [] \<and>
   createScheduledJob now week_request 7 example_state =
     (ServerError500 ValidationError, example_state) \<and>
   scheduledJobValidation 1750000000000 digits_request = [] \<and>
   fst (createScheduledJob 1750000000000 digits_request 7 example_state) =
     Created201 ((document_of digits_request 7)\<lparr>post_id := 5\<rparr>) \<and>
   status (document_of digits_request 7) = Scheduled \<and>
   scheduledDate (document_of digits_request 7) = Some 19991231 \<and>
   (19991231 :: int) \<le> 1750000000000 \<and>
   map_of (scheduledJobs (snd (createScheduledJob 1750000000000 digits_request 7 example_state))) 5 =
     Some ((document_of digits_request 7)\<lparr>post_id := 5\<rparr>)"
proof -
  have v1: "scheduledJobValidation now week_request = []"
    by (simp add: scheduledJobValidation_def week_request_def good_request_def
          registered_platforms_def)
  have sp1: "schedulePost week_request 7 example_state = Inl ValidationError"
    by (simp add: schedulePost_def week_request_def good_request_def)
  have r1: "createScheduledJob now week_request 7 example_state =
      (ServerError500 ValidationError, example_state)"
    by (simp add: createScheduledJob_def Let_def v1 sp1)
  have v2: "scheduledJobValidation 1750000000000 digits_request = []"
    by (simp add: scheduledJobValidation_def digits_request_def good_request_def
          registered_platforms_def)
  have doc: "status (document_of digits_request 7) = Scheduled"
      "scheduledDate (document_of digits_request 7) = Some 19991231"
    by (simp_all add: document_of_def digits_request_def good_request_def)
  have valid: "schema_valid (document_of digits_request 7)"
    by (simp add: schema_valid_def document_of_def digits_request_def good_request_def
          registered_platforms_def status_enum_def)
  have cast: "rq_scheduledDate digits_request \<noteq> DateMissing"
      "cast_date (rq_scheduledDate digits_request) = Some 19991231"
    by (simp_all add: digits_request_def good_request_def)
  have fresh: "fresh_id (db example_state) = 5"
    by (simp add: fresh_id_def example_defs)
  have saved: "pre_save ((document_of digits_request 7)\<lparr>post_id := 5\<rparr>) =
      (document_of digits_request 7)\<lparr>post_id := 5\<rparr>"
    by (simp add: pre_save_def Let_def document_of_def totalEngagement_virtual_def)
  have made: "create (document_of digits_request 7) (db example_state) =
      Inr ((document_of digits_request 7)\<lparr>post_id := 5\<rparr>,
           db example_state @ [(document_of digits_request 7)\<lparr>post_id := 5\<rparr>])"
    by (simp add: create_def valid fresh saved Let_def)
  have sp: "schedulePost digits_request 7 example_state =
      Inr ((document_of digits_request 7)\<lparr>post_id := 5\<rparr>,
           example_state\<lparr>db := db example_state @ [(document_of digits_request 7)\<lparr>post_id := 5\<rparr>],
             scheduledJobs := AList.update 5 ((document_of digits_request 7)\<lparr>post_id := 5\<rparr>)
               (scheduledJobs example_state)\<rparr>)"
    by (simp add: schedulePost_def made cast)
  have r2: "createScheduledJob 1750000000000 digits_request 7 example_state =
      (Created201 ((document_of digits_request 7)\<lparr>post_id := 5\<rparr>),
       example_state\<lparr>db := db example_state @ [(document_of digits_request 7)\<lparr>post_id := 5\<rparr>],
             scheduledJobs := AList.update 5 ((document_of digits_request 7)\<lparr>post_id := 5\<rparr>)
               (scheduledJobs example_state)\<rparr>)"
    by (simp add: createScheduledJob_def Let_def v2 sp)
  have cache: "map_of (scheduledJobs (snd (createScheduledJob 1750000000000 digits_request 7
      example_state))) 5 = Some ((document_of digits_request 7)\<lparr>post_id := 5\<rparr>)"
    by (simp add: r2 AList.update_conv')
  show ?thesis
    using v1 r1 v2 doc cache by (simp add: r2)
qed

subsection \<open>Analytics\<close>

text \<open>Processing a job does not touch the stored analytics.\<close>

lemma processScheduledPost_keeps_analytics:
  "map_option analytics (findById (post_id p) (db (processScheduledPost env now p s))) =
   map_option analytics (findById (post_id p) (db s))"
  by (simp add: processScheduledPost_stored option.map_comp comp_def)

text \<open>
  Claim C8. The stored aggregates are to be a function of the current \<open>postResults\<close>
  alone, recomputed whenever the results change. Two counterexamples. The post
  \<open>seen_post\<close> is saved, then its Facebook result is updated so that the views are zero:
  the results now equal those of \<open>unseen_post\<close>, whose save gives the engagement rate 0,
  but the stored rate is still 50. And \<open>rescheduled_post\<close> is processed at 2000: its
  new results carry no views, but the stored reach is still 100, where a save would
  give 0.
\<close>

theorem analytics_not_determined_by_results:
  "postResults (updatePostResult ''facebook'' views_reset (pre_save seen_post)) =
     postResults (pre_save unseen_post) \<and>
   engagementRate (analytics (updatePostResult ''facebook'' views_reset (pre_save seen_post))) = 50 \<and>
   engagementRate (analytics (pre_save unseen_post)) = 0 \<and>
   map_option (\<lambda>d. (map (\<lambda>r. counter r ''views'') (postResults d), totalReach (analytics d),
                    totalReach (analytics (pre_save d))))
     (findById 5 (db (processScheduledPost example_env 2000 rescheduled_post rescheduled_state))) =
     Some ([0], 100, 0)"
proof -
  have one: "postResults (updatePostResult ''facebook'' views_reset (pre_save seen_post)) =
     postResults (pre_save unseen_post) \<and>
   engagementRate (analytics (updatePostResult ''facebook'' views_reset (pre_save seen_post))) = 50 \<and>
   engagementRate (analytics (pre_save unseen_post)) = 0"
    by (simp add: updatePostResult_def pre_save_def Let_def assign_def counter_def
          totalEngagement_virtual_def seen_post_def unseen_post_def views_reset_def
          no_analytics_def)
  have i: "post_id rescheduled_post = 5"
    by (simp add: rescheduled_post_def pre_save_keeps seen_post_def)
  have stored: "findById (post_id rescheduled_post) (db rescheduled_state) = Some rescheduled_post"
    by (simp add: rescheduled_state_def)
  have reach: "totalReach (analytics rescheduled_post) = 100"
    by (simp add: rescheduled_post_def pre_save_def Let_def counter_def seen_post_def)
  have rs: "publishToPlatforms example_env 2000 rescheduled_post =
     [\<lparr>platform = ''facebook'', postId = Some ''fb_9'', url = Some ''https://facebook.com/fb_9'',
       publishedAt = Some 2000,
       engagement = Some [(''likes'', 0), (''comments'', 0), (''shares'', 0)],
       error = None, rstatus = Success\<rparr>]"
    by (simp add: publishToPlatforms_def attempt_def Let_def postToPlatform_def
          platforms_table_def registered_platforms_def services_def example_env_def
          publish_ok_def rescheduled_post_def pre_save_def seen_post_def)
  have "map_option (\<lambda>d. (map (\<lambda>r. counter r ''views'') (postResults d), totalReach (analytics d),
                    totalReach (analytics (pre_save d))))
     (findById (post_id rescheduled_post)
        (db (processScheduledPost example_env 2000 rescheduled_post rescheduled_state))) =
     Some ([0], 100, 0)"
    by (simp add: processScheduledPost_stored stored rs reach counter_def pre_save_def Let_def)
  then have two: "map_option (\<lambda>d. (map (\<lambda>r. counter r ''views'') (postResults d),
                    totalReach (analytics d), totalReach (analytics (pre_save d))))
     (findById 5 (db (processScheduledPost example_env 2000 rescheduled_post rescheduled_state))) =
     Some ([0], 100, 0)"
    by (simp only: i)
  from one two show ?thesis by simp
qed

subsection \<open>Status and statistics\<close>

text \<open>
  Claim C9 as stated: two calls of \<open>getStatus\<close>, and two calls of \<open>getStats\<close>, with no
  mutation in between return identical results. It fails when the clock has moved
  between the calls: the status carries the time of the call, and the count of upcoming
  posts looks a week ahead of it.
\<close>

theorem status_and_stats_depend_on_clock:
  "getStatus 0 example_state \<noteq> getStatus 60000 example_state \<and>
   getSchedulerStats 0 7 example_state \<noteq> getSchedulerStats 60000 7 example_state"
proof -
  have "st_timestamp (getStatus 0 example_state) \<noteq> st_timestamp (getStatus 60000 example_state)"
    by (simp add: getStatus_def)
  then have a: "getStatus 0 example_state \<noteq> getStatus 60000 example_state"
    by metis
  have "upcoming (getSchedulerStats 0 7 example_state) = 2"
    and "upcoming (getSchedulerStats 60000 7 example_state) = 3"
    by (simp_all add: getSchedulerStats_def Let_def weekFromNow_def example_defs)
  then have "upcoming (getSchedulerStats 0 7 example_state) \<noteq>
             upcoming (getSchedulerStats 60000 7 example_state)"
    by simp
  then have b: "getSchedulerStats 0 7 example_state \<noteq> getSchedulerStats 60000 7 example_state"
    by metis
  from a b show ?thesis by simp
qed

text \<open>
  Claim C9, amended. On one state, two calls of \<open>getStatus\<close> return the same
  \<open>isInitialized\<close> and the same \<open>scheduledJobsCount\<close>, and each a timestamp that is the
  time of the call; two calls of \<open>getSchedulerStats\<close> for one user return the same
  counts by status and the same total, and each the number of that user's scheduled posts
  due within a week of the time of the call.
\<close>

theorem status_and_stats_up_to_clock:
  "st_isInitialized (getStatus t1 s) = st_isInitialized (getStatus t2 s) \<and>
   st_scheduledJobsCount (getStatus t1 s) = st_scheduledJobsCount (getStatus t2 s) \<and>
   st_timestamp (getStatus t1 s) = t1 \<and>
   by_status (getSchedulerStats t1 uid s) = by_status (getSchedulerStats t2 uid s) \<and>
   total (getSchedulerStats t1 uid s) = total (getSchedulerStats t2 uid s) \<and>
   upcoming (getSchedulerStats t1 uid s) =
     length (filter (\<lambda>p. createdBy p = uid \<and> status p = Scheduled \<and>
                          (case scheduledDate p of None \<Rightarrow> False
                           | Some d \<Rightarrow> d \<le> weekFromNow t1)) (db s))"
  by (simp add: getStatus_def getSchedulerStats_def Let_def)

end
